theory Spec2Isabelle
  imports Main
begin

section \<open>Shared data model (package gcplog)\<close>

text \<open>
  Go's \<open>error\<close> interface is modelled by its message; a nil error is \<open>None\<close> of
  \<open>error option\<close>, and a pair \<open>(value, err)\<close> returned by a Go function is a sum with
  \<open>Inl\<close> for the error.
\<close>

type_synonym error = string

text \<open>
  \<open>model.LabelSet\<close> is a Go map from label names to label values. It is modelled as an
  association list; the nil map and the empty map both have no entries and are \<open>[]\<close>.
\<close>

type_synonym LabelSet = "(string \<times> string) list"

text \<open>\<open>api.Entry\<close>: the labels together with the timestamp and the line.\<close>

record Entry =
  entry_Labels :: LabelSet
  entry_Timestamp :: int
  entry_Line :: string

text \<open>\<open>relabel.Config\<close> is only passed through to the translator.\<close>

datatype RelabelConfig = RelabelConfig string

text \<open>
  Modelled from the spec: the type \<open>target.TargetType\<close> and its constant
  \<open>GcplogTargetType\<close> are declared in package target, whose source is not part of this
  development. \<open>Type()\<close> returns a fixed tag; the other tags of the package are not
  told apart.
\<close>

datatype TargetType = GcplogTargetType | OtherTargetType string

text \<open>The fields of \<open>server.Config\<close> that \<open>pushTarget.run\<close> writes.\<close>

record ServerConfig =
  MetricsNamespace :: string
  RegisterInstrumentation :: bool
  Log :: string

text \<open>The fields of \<open>scrapeconfig.GcplogTargetConfig\<close> that the two targets read.\<close>

record GcplogTargetConfig =
  ProjectID :: string
  Subscription :: string
  Labels :: LabelSet
  UseIncomingTimestamp :: bool
  Server :: ServerConfig

text \<open>
  The value of \<open>Details() interface{}\<close>: the nil interface value, or a
  \<open>map[string]string\<close>.
\<close>

datatype details = DetailsNil | DetailsMap "(string \<times> string) list"

datatype level = LvlDebug | LvlInfo | LvlWarn | LvlError

section \<open>Push target (push\_target.go)\<close>

text \<open>
  The HTTP server of \<open>github.com/weaveworks/common/server\<close>: its configuration, the
  routes registered on its router, whether \<open>Run\<close> has been started or \<open>Shutdown\<close> has
  been called, and how many times \<open>Shutdown\<close> has been called on it.
\<close>

datatype server_state = Created | Running | ShutDown

record HTTPServer =
  srv_cfg :: ServerConfig
  srv_routes :: "(string \<times> string) list"
  srv_state :: server_state
  srv_shutdowns :: nat

text \<open>
  Everything outside the \<open>pushTarget\<close> struct that its methods act on: the logger, the
  two push counters of \<open>Metrics\<close>, the entry handler (the entries its channel has taken,
  whether the reader of the channel will take another one, whether and how many times
  \<open>Stop\<close> has been called on it) and the servers that exist, addressed by their position.
\<close>

record world =
  logged :: "(level \<times> string) list"
  gcpPushEntries :: nat
  gcpPushErrors :: nat
  sink_entries :: "Entry list"
  sink_blocked :: bool
  sink_stopped :: bool
  sink_stop_calls :: nat
  servers :: "HTTPServer list"

text \<open>The struct \<open>pushTarget\<close>; \<open>pt_server\<close> is the pointer \<open>server\<close>, nil at first.\<close>

record pushTarget =
  pt_config :: GcplogTargetConfig
  pt_jobName :: string
  pt_server :: "nat option"
  pt_relabelConfigs :: "RelabelConfig list"

text \<open>
  Modelled from the spec: the type \<open>PushMessage\<close> is declared next to \<open>translate\<close>,
  whose source is not part of this development. It is the JSON document of a push
  request: the data, the attributes, the id and the publish time of the wrapped message,
  and the subscription.
\<close>

record PushMessage =
  pm_Data :: string
  pm_Attributes :: "(string \<times> string) list"
  pm_ID :: string
  pm_PublishTime :: string
  pm_Subscription :: string

text \<open>
  The functions that \<open>push_target.go\<close> calls and that are defined elsewhere:
  \<open>serverutils.MergeWithDefaults\<close>, \<open>model.IsValidMetricName\<close>, \<open>server.New\<close> (only
  whether it fails), \<open>json.Unmarshal\<close> into a \<open>PushMessage\<close>, and \<open>translate\<close>. They
  are parameters of the model: every property below holds whatever they compute.
\<close>

record push_deps =
  MergeWithDefaults :: "ServerConfig \<Rightarrow> error + ServerConfig"
  IsValidMetricName :: "string \<Rightarrow> bool"
  server_New :: "ServerConfig \<Rightarrow> error option"
  Unmarshal :: "string \<Rightarrow> error + PushMessage"
  translate :: "PushMessage \<Rightarrow> LabelSet \<Rightarrow> bool \<Rightarrow> RelabelConfig list \<Rightarrow> string \<Rightarrow> error + Entry"

definition log_to :: "level \<Rightarrow> string \<Rightarrow> world \<Rightarrow> world" where
  "log_to l m w = w\<lparr>logged := logged w @ [(l, m)]\<rparr>"

text \<open>
  \<open>pushTarget.run\<close>. The job name is checked before anything is built: the server is
  made by \<open>server.New\<close>, gets the route, and is started in a goroutine of its own.
\<close>

definition pushTarget_run :: "push_deps \<Rightarrow> pushTarget \<Rightarrow> world \<Rightarrow> error option \<times> pushTarget \<times> world" where
  "pushTarget_run d h w =
     (let w1 = log_to LvlInfo ''starting gcp push target'' w;
          tentativeServerMetricNamespace = ''promtail_gcp_push_target_'' @ pt_jobName h
      in if \<not> IsValidMetricName d tentativeServerMetricNamespace
         then (Some (''invalid prometheus-compatible job name: '' @ pt_jobName h), h, w1)
         else
           let cfg = (Server (pt_config h))
                       \<lparr>MetricsNamespace := tentativeServerMetricNamespace,
                        RegisterInstrumentation := False,
                        Log := ''gcp_push''\<rparr>;
               h1 = h\<lparr>pt_config := (pt_config h)\<lparr>Server := cfg\<rparr>\<rparr>
           in case server_New d cfg of
                Some err \<Rightarrow> (Some err, h1, w1)
              | None \<Rightarrow>
                  let srv = length (servers w1);
                      w2 = w1\<lparr>servers := servers w1 @
                              [\<lparr>srv_cfg = cfg,
                                srv_routes = [(''POST'', ''/gcp/api/v1/push'')],
                                srv_state = Running,
                                srv_shutdowns = 0\<rparr>]\<rparr>
                  in (None, h1\<lparr>pt_server := Some srv\<rparr>, w2))"

text \<open>\<open>newPushTarget\<close>: the target, or the error and no target.\<close>

definition newPushTarget ::
  "push_deps \<Rightarrow> string \<Rightarrow> GcplogTargetConfig \<Rightarrow> RelabelConfig list \<Rightarrow> world \<Rightarrow> (error + pushTarget) \<times> world" where
  "newPushTarget d jobName config relabel w =
     (let ht = \<lparr>pt_config = config, pt_jobName = jobName, pt_server = None,
                 pt_relabelConfigs = relabel\<rparr>
      in case MergeWithDefaults d (Server config) of
           Inl err \<Rightarrow>
             (Inl (''failed to parse configs and override defaults when configuring gcp push target: '' @ err), w)
         | Inr mergedServerConfigs \<Rightarrow>
             (case pushTarget_run d (ht\<lparr>pt_config := config\<lparr>Server := mergedServerConfigs\<rparr>\<rparr>) w of
                (Some err, _, w') \<Rightarrow> (Inl err, w')
              | (None, ht', w') \<Rightarrow> (Inr ht', w')))"

text \<open>
  An HTTP request as the handler sees it: what \<open>io.ReadAll(r.Body)\<close> gives, and the
  header \<open>X-Scope-OrgID\<close>. A response is the status code and the body.
\<close>

record Request =
  req_Body :: "error + string"
  req_OrgID :: string

record Response =
  status :: nat
  body :: string

definition StatusBadRequest :: nat where "StatusBadRequest = 400"
definition StatusNoContent :: nat where "StatusNoContent = 204"

text \<open>\<open>http.Error\<close> writes the status code and the message followed by a newline.\<close>

definition http_Error :: "string \<Rightarrow> nat \<Rightarrow> Response" where
  "http_Error msg code = \<lparr>status = code, body = msg @ [CHR 0x0A]\<rparr>"

text \<open>
  A send on the handler's channel. The channel belongs to the sink: the send completes
  when the sink takes the entry, and never returns when the sink takes nothing more
  (\<open>None\<close>).
\<close>

definition chan_send :: "Entry \<Rightarrow> world \<Rightarrow> world option" where
  "chan_send e w = (if sink_blocked w then None else Some (w\<lparr>sink_entries := sink_entries w @ [e]\<rparr>))"

text \<open>
  \<open>pushTarget.push\<close>, the handler of the route. The result is the response written to
  the \<open>http.ResponseWriter\<close>, or \<open>None\<close> when the handler never gets to write one.
\<close>

definition pushTarget_push :: "push_deps \<Rightarrow> pushTarget \<Rightarrow> Request \<Rightarrow> world \<Rightarrow> Response option \<times> world" where
  "pushTarget_push d h r w =
     (case req_Body r of
        Inl err \<Rightarrow>
          (Some (http_Error err StatusBadRequest),
           log_to LvlWarn ''failed to read incoming gcp push request''
             (w\<lparr>gcpPushErrors := gcpPushErrors w + 1\<rparr>))
      | Inr bs \<Rightarrow>
          (case Unmarshal d bs of
             Inl err \<Rightarrow>
               (Some (http_Error err StatusBadRequest),
                log_to LvlWarn ''failed to unmarshall gcp push request''
                  (w\<lparr>gcpPushErrors := gcpPushErrors w + 1\<rparr>))
           | Inr pushMessage \<Rightarrow>
               (case translate d pushMessage (Labels (pt_config h)) (UseIncomingTimestamp (pt_config h))
                       (pt_relabelConfigs h) (req_OrgID r) of
                  Inl err \<Rightarrow>
                    (Some (http_Error err StatusBadRequest),
                     log_to LvlWarn ''failed to translate gcp push request''
                       (w\<lparr>gcpPushErrors := gcpPushErrors w + 1\<rparr>))
                | Inr entry \<Rightarrow>
                    (let w1 = log_to LvlDebug (''Received line: '' @ entry_Line entry) w
                     in case chan_send entry w1 of
                          None \<Rightarrow> (None, w1)
                        | Some w2 \<Rightarrow>
                            (Some \<lparr>status = StatusNoContent, body = []\<rparr>,
                             w2\<lparr>gcpPushEntries := gcpPushEntries w2 + 1\<rparr>)))))"

text \<open>The facade methods of \<open>pushTarget\<close>.\<close>

definition pushTarget_Type :: "pushTarget \<Rightarrow> TargetType" where
  "pushTarget_Type h = GcplogTargetType"

definition pushTarget_DiscoveredLabels :: "pushTarget \<Rightarrow> LabelSet" where
  "pushTarget_DiscoveredLabels h = []"

definition pushTarget_Labels :: "pushTarget \<Rightarrow> LabelSet" where
  "pushTarget_Labels h = Labels (pt_config h)"

definition pushTarget_Ready :: "pushTarget \<Rightarrow> bool" where
  "pushTarget_Ready h = True"

definition pushTarget_Details :: "pushTarget \<Rightarrow> details" where
  "pushTarget_Details h = DetailsMap []"





section \<open>Pull target (pull\_target.go)\<close>

text \<open>
  A \<open>*pubsub.Message\<close> handed to the receive callback: the identity of the handle (the
  pointer) and the payload.
\<close>

datatype Message = Message (msg_ptr: nat) (msg_Data: string)

text \<open>
  What pull\_target.go calls and does not define: \<open>pubsub.NewClient\<close> (only whether it
  fails, for a project id) and \<open>format\<close>. They are parameters of the model.
\<close>

record pull_deps =
  NewClient :: "string \<Rightarrow> error option"
  format :: "Message \<Rightarrow> LabelSet \<Rightarrow> bool \<Rightarrow> RelabelConfig list \<Rightarrow> error + Entry"

text \<open>
  What has happened to the message handles, the latest event first: the consumer loop
  took the handle from \<open>t.msgs\<close>, called \<open>format\<close> on it, completed the send of its
  entry to the handler's channel, called \<open>Ack\<close> on it.
\<close>

datatype event = Received nat | Formatted nat | Sent nat | Acked nat

text \<open>
  The goroutine that runs \<open>pullTarget.run\<close>, by the line it is about to execute:
  \<^item> \<open>RunStart\<close>: started by \<open>newPullTarget\<close>, before \<open>t.wg.Add(1)\<close> (line 83);
  \<^item> \<open>RunAdded\<close>: before lines 86 to 102, which start the receive goroutine;
  \<^item> \<open>RunSelect\<close>: at the \<open>select\<close> of line 105;
  \<^item> \<open>RunGot m\<close>: \<open>m\<close> taken from \<open>t.msgs\<close>, before \<open>format\<close> (line 109);
  \<^item> \<open>RunFailed m err\<close>: \<open>format\<close> returned \<open>err\<close>, before the log of line 111;
  \<^item> \<open>RunAckFailed m\<close>: before \<open>m.Ack()\<close> and \<open>break\<close> (lines 112, 113);
  \<^item> \<open>RunSend m entry\<close>: before \<open>send <- entry\<close> completes (line 115);
  \<^item> \<open>RunAck m\<close>: before \<open>m.Ack()\<close> (line 116);
  \<^item> \<open>RunCount\<close>: before the increment of line 117;
  \<^item> \<open>RunReturned err\<close>: \<open>run\<close> has returned \<open>err\<close> and its deferred \<open>t.wg.Done()\<close> has run.
\<close>

datatype run_pc =
    RunStart
  | RunAdded
  | RunSelect
  | RunGot Message
  | RunFailed Message error
  | RunAckFailed Message
  | RunSend Message Entry
  | RunAck Message
  | RunCount
  | RunReturned error

text \<open>
  The goroutine of lines 89 to 102: not started, inside \<open>sub.Receive\<close>, \<open>Receive\<close> has
  returned its error (line 97 next), before the deferred \<open>t.cancel()\<close>, finished.
\<close>

datatype recv_pc = RecvNotStarted | Receiving | ReceiveReturned "error option" | RecvDeferred | RecvExited

text \<open>A call of \<open>Stop\<close>: none in progress, or before line 147, 148 or 149.\<close>

datatype stop_pc = StopIdle | StopAtCancel | StopAtWait | StopAtHandlerStop

text \<open>
  The struct \<open>pullTarget\<close> with what its goroutines act on.
  \<^item> \<open>t_ctx_done\<close>: \<open>t.ctx\<close> is cancelled; \<open>cancel_calls\<close>: how many times \<open>t.cancel\<close>
    has been called; \<open>t_wg\<close>: the counter of \<open>t.wg\<close>;
  \<^item> \<open>t_msgs_cap\<close>, \<open>t_msgs_buf\<close>: the capacity and the buffer of the channel \<open>t.msgs\<close>;
  \<^item> \<open>callbacks\<close>: the calls of the receive callback that are blocked in \<open>t.msgs <- m\<close>;
  \<^item> \<open>next_ptr\<close>: the identity the next message handle will have;
  \<^item> the three counters of \<open>Metrics\<close> that the pull target writes, the logger, the
    entries the handler's channel has taken, whether the handler was stopped and how
    many times its \<open>Stop\<close> has been called;
  \<^item> \<open>panicked\<close>: the counter of \<open>t.wg\<close> went negative.
\<close>

record pullTarget =
  t_config :: GcplogTargetConfig
  t_relabelConfig :: "RelabelConfig list"
  t_jobName :: string
  t_ctx_done :: bool
  cancel_calls :: nat
  t_wg :: int
  t_msgs_cap :: nat
  t_msgs_buf :: "Message list"
  run_at :: run_pc
  recv_at :: recv_pc
  stop_at :: stop_pc
  stops_returned :: nat
  callbacks :: "Message list"
  next_ptr :: nat
  gcplogEntries :: nat
  gcplogErrors :: nat
  gcplogTargetLastSuccessScrape :: "nat option"
  t_logged :: "(level \<times> string) list"
  handler_entries :: "Entry list"
  handler_stopped :: bool
  handler_stops :: nat
  panicked :: bool
  trace :: "event list"

text \<open>
  \<open>newPullTarget\<close>. The channel is made without a capacity, the context is not
  cancelled, the wait group is at zero, and \<open>run\<close> is started in a goroutine that has
  not executed anything yet when \<open>newPullTarget\<close> returns.
\<close>

definition newPullTarget ::
  "pull_deps \<Rightarrow> RelabelConfig list \<Rightarrow> string \<Rightarrow> GcplogTargetConfig \<Rightarrow> error + pullTarget" where
  "newPullTarget d relabel jobName config =
     (case NewClient d (ProjectID config) of
        Some err \<Rightarrow> Inl err
      | None \<Rightarrow>
          Inr \<lparr>t_config = config, t_relabelConfig = relabel, t_jobName = jobName,
               t_ctx_done = False, cancel_calls = 0, t_wg = 0, t_msgs_cap = 0, t_msgs_buf = [],
               run_at = RunStart, recv_at = RecvNotStarted, stop_at = StopIdle,
               stops_returned = 0, callbacks = [], next_ptr = 0,
               gcplogEntries = 0, gcplogErrors = 0, gcplogTargetLastSuccessScrape = None,
               t_logged = [], handler_entries = [], handler_stopped = False,
               handler_stops = 0, panicked = False, trace = []\<rparr>)"

text \<open>
  One step of one goroutine. The steps of \<open>run\<close> and of \<open>Stop\<close> are the statements of
  the source; \<open>Deliver\<close>, \<open>Callback_Buffer\<close> and \<open>Receive_Returns\<close> are the steps of
  the subscription client: it calls the callback with a new message, a blocked callback
  puts its message into the buffer of the channel, \<open>sub.Receive\<close> returns. \<open>Run_Send\<close> is
  the moment the handler takes the entry from its channel. \<open>Recv_Check\<close> carries the time
  that \<open>SetToCurrentTime\<close> reads. The subscription client is not restricted beyond
  that: while \<open>sub.Receive\<close> runs it may deliver at any time, and \<open>sub.Receive\<close> may
  return at any time with any result.
\<close>

datatype action =
    Run_Add
  | Run_Spawn
  | Run_Done
  | Run_RecvBuffered
  | Run_RecvDirect nat
  | Run_Format
  | Run_LogErr
  | Run_AckErr
  | Run_Send
  | Run_Ack
  | Run_Count
  | Deliver string
  | Callback_Buffer nat
  | Receive_Returns "error option"
  | Recv_Check nat
  | Recv_Cancel
  | Stop_Call
  | Stop_Cancel
  | Stop_Wait
  | Stop_Handler

text \<open>
  \<open>step d a t\<close> is the state after the step \<open>a\<close>, or \<open>None\<close> when \<open>a\<close> cannot be taken
  in \<open>t\<close>: its goroutine is elsewhere, or it is blocked there.
  A receive from \<open>t.msgs\<close> takes the head of the buffer, or with an empty buffer the
  message of a blocked sender; a send into the buffer needs room in it. The branch
  \<open>t.ctx.Done()\<close> of the select needs the context to be cancelled; when both branches
  are ready either step can be taken. \<open>t.wg.Wait()\<close> returns when the counter is zero.

  Modelled from the spec: \<open>t.cancel\<close> and \<open>t.handler.Stop\<close> are not part of this
  development. \<open>t.cancel()\<close> sets the cancellation signal, which stays set (section 5
  of the spec), and \<open>t.handler.Stop()\<close> is the \<open>stop()\<close> of the sink (section 6). Every
  call of either is counted, so that a repeated call shows in the state.
\<close>

fun step :: "pull_deps \<Rightarrow> action \<Rightarrow> pullTarget \<Rightarrow> pullTarget option" where
  "step d Run_Add t =
     (if run_at t = RunStart then Some (t\<lparr>t_wg := t_wg t + 1, run_at := RunAdded\<rparr>) else None)"
| "step d Run_Spawn t =
     (if run_at t = RunAdded then Some (t\<lparr>recv_at := Receiving, run_at := RunSelect\<rparr>) else None)"
| "step d Run_Done t =
     (if run_at t = RunSelect \<and> t_ctx_done t
      then Some (t\<lparr>run_at := RunReturned ''context canceled'', t_wg := t_wg t - 1,
                   panicked := (panicked t \<or> t_wg t - 1 < 0)\<rparr>)
      else None)"
| "step d Run_RecvBuffered t =
     (if run_at t = RunSelect
      then (case t_msgs_buf t of
              [] \<Rightarrow> None
            | m # rest \<Rightarrow>
                Some (t\<lparr>t_msgs_buf := rest, run_at := RunGot m,
                        trace := Received (msg_ptr m) # trace t\<rparr>))
      else None)"
| "step d (Run_RecvDirect p) t =
     (if run_at t = RunSelect \<and> t_msgs_buf t = []
      then (case find (\<lambda>m. msg_ptr m = p) (callbacks t) of
              None \<Rightarrow> None
            | Some m \<Rightarrow>
                Some (t\<lparr>callbacks := remove1 m (callbacks t), run_at := RunGot m,
                        trace := Received (msg_ptr m) # trace t\<rparr>))
      else None)"
| "step d Run_Format t =
     (case run_at t of
        RunGot m \<Rightarrow>
          (case format d m (Labels (t_config t)) (UseIncomingTimestamp (t_config t)) (t_relabelConfig t) of
             Inl err \<Rightarrow> Some (t\<lparr>run_at := RunFailed m err, trace := Formatted (msg_ptr m) # trace t\<rparr>)
           | Inr entry \<Rightarrow> Some (t\<lparr>run_at := RunSend m entry, trace := Formatted (msg_ptr m) # trace t\<rparr>))
      | _ \<Rightarrow> None)"
| "step d Run_LogErr t =
     (case run_at t of
        RunFailed m err \<Rightarrow>
          Some (t\<lparr>t_logged := t_logged t @ [(LvlError, ''error formating log entry'')],
                  run_at := RunAckFailed m\<rparr>)
      | _ \<Rightarrow> None)"
| "step d Run_AckErr t =
     (case run_at t of
        RunAckFailed m \<Rightarrow> Some (t\<lparr>run_at := RunSelect, trace := Acked (msg_ptr m) # trace t\<rparr>)
      | _ \<Rightarrow> None)"
| "step d Run_Send t =
     (case run_at t of
        RunSend m entry \<Rightarrow>
          Some (t\<lparr>handler_entries := handler_entries t @ [entry], run_at := RunAck m,
                  trace := Sent (msg_ptr m) # trace t\<rparr>)
      | _ \<Rightarrow> None)"
| "step d Run_Ack t =
     (case run_at t of
        RunAck m \<Rightarrow> Some (t\<lparr>run_at := RunCount, trace := Acked (msg_ptr m) # trace t\<rparr>)
      | _ \<Rightarrow> None)"
| "step d Run_Count t =
     (if run_at t = RunCount
      then Some (t\<lparr>gcplogEntries := gcplogEntries t + 1, run_at := RunSelect\<rparr>)
      else None)"
| "step d (Deliver payload) t =
     (if recv_at t = Receiving
      then Some (t\<lparr>callbacks := callbacks t @ [Message (next_ptr t) payload],
                   next_ptr := next_ptr t + 1\<rparr>)
      else None)"
| "step d (Callback_Buffer p) t =
     (case find (\<lambda>m. msg_ptr m = p) (callbacks t) of
        None \<Rightarrow> None
      | Some m \<Rightarrow>
          if length (t_msgs_buf t) < t_msgs_cap t
          then Some (t\<lparr>callbacks := remove1 m (callbacks t), t_msgs_buf := t_msgs_buf t @ [m]\<rparr>)
          else None)"
| "step d (Receive_Returns err) t =
     (if recv_at t = Receiving then Some (t\<lparr>recv_at := ReceiveReturned err\<rparr>) else None)"
| "step d (Recv_Check now) t =
     (case recv_at t of
        ReceiveReturned None \<Rightarrow> Some (t\<lparr>recv_at := RecvDeferred\<rparr>)
      | ReceiveReturned (Some err) \<Rightarrow>
          Some (t\<lparr>t_logged := t_logged t @ [(LvlError, ''failed to receive pubsub messages'')],
                  gcplogErrors := gcplogErrors t + 1,
                  gcplogTargetLastSuccessScrape := Some now,
                  recv_at := RecvDeferred\<rparr>)
      | _ \<Rightarrow> None)"
| "step d Recv_Cancel t =
     (if recv_at t = RecvDeferred
      then Some (t\<lparr>t_ctx_done := True, cancel_calls := cancel_calls t + 1, recv_at := RecvExited\<rparr>)
      else None)"
| "step d Stop_Call t =
     (if stop_at t = StopIdle then Some (t\<lparr>stop_at := StopAtCancel\<rparr>) else None)"
| "step d Stop_Cancel t =
     (if stop_at t = StopAtCancel
      then Some (t\<lparr>t_ctx_done := True, cancel_calls := cancel_calls t + 1, stop_at := StopAtWait\<rparr>)
      else None)"
| "step d Stop_Wait t =
     (if stop_at t = StopAtWait \<and> t_wg t = 0 then Some (t\<lparr>stop_at := StopAtHandlerStop\<rparr>) else None)"
| "step d Stop_Handler t =
     (if stop_at t = StopAtHandlerStop
      then Some (t\<lparr>handler_stopped := True, handler_stops := handler_stops t + 1,
                   stop_at := StopIdle,
                   stops_returned := stops_returned t + 1\<rparr>)
      else None)"

text \<open>A schedule is a list of steps, taken in order; it is refused when one cannot be taken.\<close>

fun exec :: "pull_deps \<Rightarrow> action list \<Rightarrow> pullTarget \<Rightarrow> pullTarget option" where
  "exec d [] t = Some t"
| "exec d (a # as) t = (case step d a t of None \<Rightarrow> None | Some t' \<Rightarrow> exec d as t')"

text \<open>The facade methods of \<open>pullTarget\<close>.\<close>

definition pullTarget_Type :: "pullTarget \<Rightarrow> TargetType" where
  "pullTarget_Type t = GcplogTargetType"

definition pullTarget_Ready :: "pullTarget \<Rightarrow> bool" where
  "pullTarget_Ready t = True"

definition pullTarget_DiscoveredLabels :: "pullTarget \<Rightarrow> LabelSet" where
  "pullTarget_DiscoveredLabels t = []"

definition pullTarget_Labels :: "pullTarget \<Rightarrow> LabelSet" where
  "pullTarget_Labels t = Labels (t_config t)"

definition pullTarget_Details :: "pullTarget \<Rightarrow> details" where
  "pullTarget_Details t = DetailsNil"

section \<open>Invariants of the pull target\<close>

text \<open>
  The counter of \<open>t.wg\<close> that goes with each place of \<open>run\<close>: one from \<open>t.wg.Add(1)\<close>
  until the deferred \<open>t.wg.Done()\<close>, zero before and after.
\<close>

fun joined :: "run_pc \<Rightarrow> int" where
  "joined RunStart = 0"
| "joined (RunReturned err) = 0"
| "joined pc = 1"

definition wg_ok :: "pullTarget \<Rightarrow> bool" where
  "wg_ok t = (\<not> panicked t \<and> t_wg t = joined (run_at t))"

text \<open>The channel \<open>t.msgs\<close> has no capacity and holds nothing.\<close>

definition unbuffered :: "pullTarget \<Rightarrow> bool" where
  "unbuffered t = (t_msgs_cap t = 0 \<and> t_msgs_buf t = [])"

text \<open>
  The order in which the events of one handle may come, read from the latest event back:
  a handle is received once; it is formatted once, after it was received; its entry is
  sent at most once, after the handle was formatted and before it is acknowledged; it is
  acknowledged once, after it was formatted.
\<close>

fun ack_discipline :: "event list \<Rightarrow> bool" where
  "ack_discipline [] = True"
| "ack_discipline (Received p # es) = (Received p \<notin> set es \<and> ack_discipline es)"
| "ack_discipline (Formatted p # es) =
     (Received p \<in> set es \<and> Formatted p \<notin> set es \<and> ack_discipline es)"
| "ack_discipline (Sent p # es) =
     (Formatted p \<in> set es \<and> Sent p \<notin> set es \<and> Acked p \<notin> set es \<and> ack_discipline es)"
| "ack_discipline (Acked p # es) =
     (Formatted p \<in> set es \<and> Acked p \<notin> set es \<and> ack_discipline es)"

text \<open>The handle that \<open>run\<close> has taken from \<open>t.msgs\<close> and not acknowledged yet.\<close>

fun holding :: "run_pc \<Rightarrow> nat option" where
  "holding (RunGot m) = Some (msg_ptr m)"
| "holding (RunFailed m err) = Some (msg_ptr m)"
| "holding (RunAckFailed m) = Some (msg_ptr m)"
| "holding (RunSend m entry) = Some (msg_ptr m)"
| "holding (RunAck m) = Some (msg_ptr m)"
| "holding pc = None"

text \<open>What has happened to the handle that \<open>run\<close> holds, at each place.\<close>

fun pc_events :: "run_pc \<Rightarrow> event list \<Rightarrow> bool" where
  "pc_events (RunGot m) tr =
     (Received (msg_ptr m) \<in> set tr \<and> Formatted (msg_ptr m) \<notin> set tr
      \<and> Sent (msg_ptr m) \<notin> set tr \<and> Acked (msg_ptr m) \<notin> set tr)"
| "pc_events (RunFailed m err) tr =
     (Formatted (msg_ptr m) \<in> set tr \<and> Sent (msg_ptr m) \<notin> set tr \<and> Acked (msg_ptr m) \<notin> set tr)"
| "pc_events (RunAckFailed m) tr =
     (Formatted (msg_ptr m) \<in> set tr \<and> Sent (msg_ptr m) \<notin> set tr \<and> Acked (msg_ptr m) \<notin> set tr)"
| "pc_events (RunSend m entry) tr =
     (Formatted (msg_ptr m) \<in> set tr \<and> Sent (msg_ptr m) \<notin> set tr \<and> Acked (msg_ptr m) \<notin> set tr)"
| "pc_events (RunAck m) tr =
     (Formatted (msg_ptr m) \<in> set tr \<and> Acked (msg_ptr m) \<notin> set tr)"
| "pc_events pc tr = True"

text \<open>
  The handles of the blocked callbacks are different from each other, were given out
  before, and have not been received.
\<close>

definition fresh_handles :: "pullTarget \<Rightarrow> bool" where
  "fresh_handles t =
     ((\<forall>p. Received p \<in> set (trace t) \<longrightarrow> p < next_ptr t)
      \<and> (\<forall>m \<in> set (callbacks t). msg_ptr m < next_ptr t \<and> Received (msg_ptr m) \<notin> set (trace t))
      \<and> distinct (map msg_ptr (callbacks t)))"

definition disciplined :: "pullTarget \<Rightarrow> bool" where
  "disciplined t = (ack_discipline (trace t) \<and> pc_events (run_at t) (trace t))"

text \<open>Every handle that was received and is no longer held has been acknowledged.\<close>

definition all_acked :: "pullTarget \<Rightarrow> bool" where
  "all_acked t =
     (\<forall>p. Received p \<in> set (trace t) \<longrightarrow> holding (run_at t) \<noteq> Some p \<longrightarrow> Acked p \<in> set (trace t))"

fun sent :: "event \<Rightarrow> bool" where
  "sent (Sent p) = True"
| "sent e = False"

definition pull_inv :: "pullTarget \<Rightarrow> bool" where
  "pull_inv t = (unbuffered t \<and> wg_ok t \<and> fresh_handles t \<and> disciplined t \<and> all_acked t
                 \<and> length (handler_entries t) = length (filter sent (trace t)))"





section \<open>Predicates and schedules used by the properties\<close>

text \<open>Whether the value of \<open>Details()\<close> is a map.\<close>

fun is_map :: "details \<Rightarrow> bool" where
  "is_map (DetailsMap m) = True"
| "is_map DetailsNil = False"





section \<open>Example instances\<close>

text \<open>
  A metric name accepted by Prometheus: letters, digits, underscores and colons, not
  empty and not starting with a digit.
\<close>

definition valid_metric_char :: "char \<Rightarrow> bool" where
  "valid_metric_char c =
     (let n = (of_char c :: nat)
      in c = CHR ''_'' \<or> c = CHR '':'' \<or> (97 \<le> n \<and> n \<le> 122) \<or> (65 \<le> n \<and> n \<le> 90)
         \<or> (48 \<le> n \<and> n \<le> 57))"

definition example_IsValidMetricName :: "string \<Rightarrow> bool" where
  "example_IsValidMetricName n =
     (case n of
        [] \<Rightarrow> False
      | c # _ \<Rightarrow> list_all valid_metric_char n \<and> \<not> (48 \<le> (of_char c :: nat) \<and> (of_char c :: nat) \<le> 57))"

definition example_push_deps :: push_deps where
  "example_push_deps =
     \<lparr>MergeWithDefaults = Inr,
      IsValidMetricName = example_IsValidMetricName,
      server_New = (\<lambda>cfg. None),
      Unmarshal = (\<lambda>bs. if bs = [] then Inl ''unexpected end of JSON input''
                         else Inr \<lparr>pm_Data = bs, pm_Attributes = [], pm_ID = ''1'',
                                   pm_PublishTime = '''', pm_Subscription = ''sub''\<rparr>),
      translate = (\<lambda>pm labels useTs relabel org.
                     if pm_Data pm = ''drop'' then Inl ''dropped by relabeling''
                     else Inr \<lparr>entry_Labels = labels, entry_Timestamp = 0, entry_Line = pm_Data pm\<rparr>)\<rparr>"

definition example_config :: GcplogTargetConfig where
  "example_config =
     \<lparr>ProjectID = ''proj'', Subscription = ''sub'', Labels = [(''job'', ''gcplog'')],
      UseIncomingTimestamp = False,
      Server = \<lparr>MetricsNamespace = '''', RegisterInstrumentation = True, Log = ''''\<rparr>\<rparr>"

definition example_world :: world where
  "example_world =
     \<lparr>logged = [], gcpPushEntries = 0, gcpPushErrors = 0, sink_entries = [],
      sink_blocked = False, sink_stopped = False, sink_stop_calls = 0, servers = []\<rparr>"

definition example_pushTarget :: pushTarget where
  "example_pushTarget =
     \<lparr>pt_config = example_config, pt_jobName = ''job1'', pt_server = Some 0, pt_relabelConfigs = []\<rparr>"




definition example_pull_deps :: pull_deps where
  "example_pull_deps =
     \<lparr>NewClient = (\<lambda>project. None),
      format = (\<lambda>m labels useTs relabel.
                  if msg_Data m = ''drop'' then Inl ''dropped by relabeling''
                  else Inr \<lparr>entry_Labels = labels, entry_Timestamp = 0, entry_Line = msg_Data m\<rparr>)\<rparr>"

definition example_pullTarget :: pullTarget where
  "example_pullTarget =
     \<lparr>t_config = example_config, t_relabelConfig = [], t_jobName = ''job1'',
      t_ctx_done = False, cancel_calls = 0, t_wg = 0, t_msgs_cap = 0, t_msgs_buf = [],
      run_at = RunStart, recv_at = RecvNotStarted, stop_at = StopIdle,
      stops_returned = 0, callbacks = [], next_ptr = 0,
      gcplogEntries = 0, gcplogErrors = 0, gcplogTargetLastSuccessScrape = None,
      t_logged = [], handler_entries = [], handler_stopped = False,
      handler_stops = 0, panicked = False, trace = []\<rparr>"

text \<open>
  A schedule on which a message that \<open>format\<close> rejects is delivered and handled by the
  consumer loop.
\<close>

definition format_failure_schedule :: "action list" where
  "format_failure_schedule =
     [Run_Add, Run_Spawn, Deliver ''drop'', Run_RecvDirect 0, Run_Format, Run_LogErr, Run_AckErr]"

text \<open>A whole call of \<open>Stop\<close> before the goroutine of \<open>run\<close> has taken its first step.\<close>

definition early_stop_schedule :: "action list" where
  "early_stop_schedule = [Stop_Call, Stop_Cancel, Stop_Wait, Stop_Handler]"




section \<open>The push handler\<close>

text \<open>
  Claim C2. A push request whose body cannot be read, whose JSON payload cannot be
  parsed, or whose translation fails is answered with 400 Bad Request; the error counter
  goes up by exactly one, the success counter stays, and the sink has received nothing.
\<close>

theorem push_failure_bad_request:
  assumes "(\<exists>err. req_Body r = Inl err)
         \<or> (\<exists>bs err. req_Body r = Inr bs \<and> Unmarshal d bs = Inl err)
         \<or> (\<exists>bs pm err. req_Body r = Inr bs \<and> Unmarshal d bs = Inr pm \<and>
               translate d pm (Labels (pt_config h)) (UseIncomingTimestamp (pt_config h))
                 (pt_relabelConfigs h) (req_OrgID r) = Inl err)"
  shows "\<exists>resp w'. pushTarget_push d h r w = (Some resp, w') \<and> status resp = 400
           \<and> gcpPushErrors w' = gcpPushErrors w + 1
           \<and> gcpPushEntries w' = gcpPushEntries w
           \<and> sink_entries w' = sink_entries w"
  using assms
  by (auto simp: pushTarget_push_def http_Error_def StatusBadRequest_def log_to_def)

theorem push_failure_bad_request_witness:
  "Unmarshal example_push_deps [] = Inl ''unexpected end of JSON input'' \<and>
   (\<exists>resp w'. pushTarget_push example_push_deps example_pushTarget
                 \<lparr>req_Body = Inr [], req_OrgID = ''''\<rparr> example_world = (Some resp, w')
       \<and> status resp = 400 \<and> gcpPushErrors w' = 1 \<and> gcpPushEntries w' = 0 \<and> sink_entries w' = [])"
proof -
  have u: "Unmarshal example_push_deps [] = Inl ''unexpected end of JSON input''"
    by (simp add: example_push_deps_def)
  then have "\<exists>bs err. req_Body \<lparr>req_Body = Inr [], req_OrgID = ''''\<rparr> = Inr bs
                \<and> Unmarshal example_push_deps bs = Inl err"
    by simp
  then show ?thesis
    using u push_failure_bad_request [of "\<lparr>req_Body = Inr [], req_OrgID = ''''\<rparr>"
        example_push_deps example_pushTarget example_world]
    by (simp add: example_world_def)
qed

text \<open>
  Claim C4. A push request that translates to an entry submits exactly that one entry
  to the sink, and only when the sink has taken it does the handler answer 204 No Content
  and raise the success counter by exactly one. While the sink takes nothing the handler
  writes no response and counts nothing.
\<close>

theorem push_success_no_content:
  assumes "req_Body r = Inr bs" and "Unmarshal d bs = Inr pm"
    and "translate d pm (Labels (pt_config h)) (UseIncomingTimestamp (pt_config h))
           (pt_relabelConfigs h) (req_OrgID r) = Inr entry"
  shows "if sink_blocked w
         then (\<exists>w'. pushTarget_push d h r w = (None, w') \<and> sink_entries w' = sink_entries w
                 \<and> gcpPushEntries w' = gcpPushEntries w)
         else (\<exists>w'. pushTarget_push d h r w = (Some \<lparr>status = 204, body = []\<rparr>, w')
                 \<and> sink_entries w' = sink_entries w @ [entry]
                 \<and> gcpPushEntries w' = gcpPushEntries w + 1
                 \<and> gcpPushErrors w' = gcpPushErrors w)"
  using assms
  by (auto simp: pushTarget_push_def chan_send_def StatusNoContent_def log_to_def)

theorem push_success_no_content_witness:
  "\<exists>w'. pushTarget_push example_push_deps example_pushTarget
           \<lparr>req_Body = Inr ''hello'', req_OrgID = ''''\<rparr> example_world
          = (Some \<lparr>status = 204, body = []\<rparr>, w')
       \<and> sink_entries w' = [\<lparr>entry_Labels = [(''job'', ''gcplog'')], entry_Timestamp = 0, entry_Line = ''hello''\<rparr>]
       \<and> gcpPushEntries w' = 1 \<and> gcpPushErrors w' = 0"
  using push_success_no_content [of "\<lparr>req_Body = Inr ''hello'', req_OrgID = ''''\<rparr>" "''hello''"
      example_push_deps
      "\<lparr>pm_Data = ''hello'', pm_Attributes = [], pm_ID = ''1'', pm_PublishTime = '''', pm_Subscription = ''sub''\<rparr>"
      example_pushTarget
      "\<lparr>entry_Labels = [(''job'', ''gcplog'')], entry_Timestamp = 0, entry_Line = ''hello''\<rparr>"
      example_world]
  by (simp add: example_push_deps_def example_pushTarget_def example_config_def example_world_def)

section \<open>The constructor of the push target\<close>

text \<open>
  Claim C10. When \<open>promtail_gcp_push_target_\<close> followed by the job name is not a valid
  Prometheus metric name, \<open>newPushTarget\<close> returns an error, and no server has been
  created or started: the servers are the ones there were before.
\<close>

theorem newPushTarget_invalid_job_name:
  assumes "\<not> IsValidMetricName d (''promtail_gcp_push_target_'' @ jobName)"
  shows "\<exists>err w'. newPushTarget d jobName config relabel w = (Inl err, w') \<and> servers w' = servers w"
  using assms
  by (auto simp: newPushTarget_def pushTarget_run_def log_to_def Let_def split: sum.splits)

theorem newPushTarget_invalid_job_name_witness:
  "\<not> IsValidMetricName example_push_deps (''promtail_gcp_push_target_'' @ ''job-1'') \<and>
   (\<exists>err w'. newPushTarget example_push_deps ''job-1'' example_config [] example_world = (Inl err, w')
       \<and> servers w' = [])"
proof -
  have n: "\<not> IsValidMetricName example_push_deps (''promtail_gcp_push_target_'' @ ''job-1'')"
    by (simp add: example_push_deps_def example_IsValidMetricName_def valid_metric_char_def)
  show ?thesis
    using n newPushTarget_invalid_job_name [OF n, of example_config "[]" example_world]
    by (simp add: example_world_def)
qed

section \<open>Invariants of every schedule of the pull target\<close>





























section \<open>The consumer loop\<close>



section \<open>A message that cannot be translated\<close>

text \<open>
  From the place where the consumer loop holds a message that \<open>format\<close> rejects, the
  three steps of the error branch log the failure and acknowledge the handle; they send
  nothing and change no counter.
\<close>

lemma format_failure_steps:
  assumes "run_at t = RunGot m"
    and "format d m (Labels (t_config t)) (UseIncomingTimestamp (t_config t)) (t_relabelConfig t) = Inl err"
  shows "exec d [Run_Format, Run_LogErr, Run_AckErr] t =
           Some (t\<lparr>run_at := RunSelect,
                   trace := Acked (msg_ptr m) # Formatted (msg_ptr m) # trace t,
                   t_logged := t_logged t @ [(LvlError, ''error formating log entry'')]\<rparr>)"
  using assms by simp

text \<open>
  Claim C3. On the schedule \<open>format_failure_schedule\<close> the message with payload
  \<open>drop\<close> is rejected by \<open>format\<close>. The consumer loop logs the failure, acknowledges
  the handle and is back at the select, and the handler has received no entry; but the
  error counter \<open>gcplogErrors\<close> is still zero: the branch of lines 110 to 114 counts
  nothing.
\<close>

theorem pull_format_failure_not_counted:
  "map_option run_at (exec example_pull_deps format_failure_schedule example_pullTarget) = Some RunSelect
   \<and> map_option trace (exec example_pull_deps format_failure_schedule example_pullTarget)
       = Some [Acked 0, Formatted 0, Received 0]
   \<and> map_option t_logged (exec example_pull_deps format_failure_schedule example_pullTarget)
       = Some [(LvlError, ''error formating log entry'')]
   \<and> map_option handler_entries (exec example_pull_deps format_failure_schedule example_pullTarget) = Some []
   \<and> map_option gcplogErrors (exec example_pull_deps format_failure_schedule example_pullTarget) = Some 0
   \<and> map_option gcplogEntries (exec example_pull_deps format_failure_schedule example_pullTarget) = Some 0
   \<and> map_option gcplogTargetLastSuccessScrape
        (exec example_pull_deps format_failure_schedule example_pullTarget) = Some None"
  by (simp add: format_failure_schedule_def example_pull_deps_def example_pullTarget_def)

section \<open>Stop of the pull target\<close>

text \<open>
  \<open>t.wg.Wait()\<close> lets \<open>Stop\<close> pass only when \<open>run\<close> has returned, or when \<open>run\<close> has
  not yet executed its \<open>t.wg.Add(1)\<close>.
\<close>

lemma wait_passes_only:
  assumes "pull_inv t" and "step d Stop_Wait t = Some t'"
  shows "run_at t = RunStart \<or> (\<exists>err. run_at t = RunReturned err)"
proof -
  from assms(1) have "t_wg t = joined (run_at t)" by (simp add: pull_inv_def wg_ok_def)
  moreover from assms(2) have "t_wg t = 0" by (simp split: if_splits)
  ultimately show ?thesis by (cases "run_at t") simp_all
qed

text \<open>
  Claim C5. \<open>Stop\<close> cancels, then waits for the wait group, then stops the handler. On
  the schedule \<open>early_stop_schedule\<close> the whole call of \<open>Stop\<close> runs before the
  goroutine of \<open>run\<close> has executed \<open>t.wg.Add(1)\<close>: the wait passes at once, the handler
  is stopped and \<open>Stop\<close> has returned while the consumer loop has not yet started; the
  loop reaches its select, and exits, only afterwards.
\<close>

theorem stop_returns_before_consumer_exits:
  "map_option stops_returned (exec example_pull_deps early_stop_schedule example_pullTarget) = Some 1
   \<and> map_option handler_stopped (exec example_pull_deps early_stop_schedule example_pullTarget) = Some True
   \<and> map_option run_at (exec example_pull_deps early_stop_schedule example_pullTarget) = Some RunStart
   \<and> map_option run_at
        (exec example_pull_deps (early_stop_schedule @ [Run_Add, Run_Spawn]) example_pullTarget)
       = Some RunSelect
   \<and> map_option run_at
        (exec example_pull_deps (early_stop_schedule @ [Run_Add, Run_Spawn, Run_Done]) example_pullTarget)
       = Some (RunReturned ''context canceled'')"
  by (simp add: early_stop_schedule_def example_pull_deps_def example_pullTarget_def)

section \<open>The receive goroutine\<close>












section \<open>Calling Stop twice\<close>














section \<open>The handoff between the receive callback and the consumer loop\<close>






section \<open>The facade\<close>

text \<open>
  The targets that the constructors build carry the labels of the configuration, and no
  step of the pull target changes its configuration.
\<close>

lemma newPushTarget_config:
  assumes "newPushTarget d jobName config relabel w = (Inr h, w')"
  shows "Labels (pt_config h) = Labels config \<and> pt_jobName h = jobName
         \<and> (\<exists>i. pt_server h = Some i \<and> i < length (servers w') \<and> srv_state (servers w' ! i) = Running)"
  using assms
  by (auto simp: newPushTarget_def pushTarget_run_def log_to_def Let_def nth_append
      split: sum.splits option.splits if_splits)

lemma step_t_config: "step d a s = Some s' \<Longrightarrow> t_config s' = t_config s"
  by (cases a) (auto split: if_splits run_pc.splits list.splits option.splits sum.splits recv_pc.splits)

lemma exec_t_config: "exec d sched t0 = Some t \<Longrightarrow> t_config t = t_config t0"
  by (induction sched arbitrary: t0) (auto split: option.splits dest: step_t_config)

lemma newPullTarget_config:
  "newPullTarget d relabel jobName config = Inr t0 \<Longrightarrow> t_config t0 = config"
  by (auto simp: newPullTarget_def split: option.splits)

text \<open>
  Claim C9, as stated, asks that \<open>Details()\<close> returns a map for both targets. The pull
  target returns the nil interface value, which is no map.
\<close>

theorem pull_Details_not_a_map: "\<not> is_map (pullTarget_Details example_pullTarget)"
  by (simp add: pullTarget_Details_def)

text \<open>
  Claim C9, amended. In every state, for both targets, \<open>Type()\<close> is the gcplog tag,
  \<open>Labels()\<close> is the label set of the configuration, \<open>DiscoveredLabels()\<close> is empty and
  \<open>Ready()\<close> is true; \<open>Details()\<close> is an empty map for the push target and nil for the
  pull target.
\<close>

theorem facade_results:
  "pushTarget_Type h = GcplogTargetType \<and> pullTarget_Type t = GcplogTargetType
   \<and> pushTarget_Labels h = Labels (pt_config h) \<and> pullTarget_Labels t = Labels (t_config t)
   \<and> pushTarget_DiscoveredLabels h = [] \<and> pullTarget_DiscoveredLabels t = []
   \<and> pushTarget_Ready h \<and> pullTarget_Ready t
   \<and> pushTarget_Details h = DetailsMap [] \<and> is_map (pushTarget_Details h)
   \<and> pullTarget_Details t = DetailsNil"
  by (simp add: pushTarget_Type_def pullTarget_Type_def pushTarget_Labels_def pullTarget_Labels_def
      pushTarget_DiscoveredLabels_def pullTarget_DiscoveredLabels_def pushTarget_Ready_def
      pullTarget_Ready_def pushTarget_Details_def pullTarget_Details_def)

end
